theory Spec2Isabelle
  imports Complex_Main
begin

section \<open>Salary predictor: the interactive app and the trainer\<close>

text \<open>
  The repository has two scripts. \<^verbatim>\<open>app.py\<close> is the interactive predictor: it validates
  the form, calls the loaded pipeline's \<^verbatim>\<open>predict\<close>, converts and displays the result
  and offers a one-row CSV report. \<^verbatim>\<open>train_model.py\<close> synthesises the training set
  and fits the pipeline.

  Conventions of the embedding.
  \<^item> Python \<^verbatim>\<open>int\<close> is \<open>int\<close>. A \<^verbatim>\<open>float64\<close> is a \<open>real\<close>: the arithmetic
    is the exact one, so rounding, infinities and NaN of IEEE arithmetic are not
    represented (a missing value of a pandas column, which pandas stores as NaN, is
    \<open>None\<close> of an option).
  \<^item> A \<^verbatim>\<open>str\<close> is a \<open>string\<close> holding its UTF-8 bytes; the few characters
    outside ASCII are written with their bytes.
  \<^item> A \<^verbatim>\<open>DataFrame\<close> is a record of its columns, each column a list.
  \<^item> An exception is a value of \<open>exn\<close>; a call that may raise returns \<open>exn + 'a\<close>.
  \<^item> The effects of \<^verbatim>\<open>main\<close> (what Streamlit is asked to display, the call of the
    model, the sleep) are the list of \<open>ui\<close> events it returns, in program order.
  \<^item> An f-string is the list of its pieces: literal text, or a float together with the
    format specification it is printed with. The decimal text of a float is not computed.
\<close>

datatype exn = ValueError | IndexError | KeyError

subsection \<open>Characters outside ASCII\<close>

definition rupee_sign :: string where
  "rupee_sign = [CHR 0xE2, CHR 0x82, CHR 0xB9]"

definition euro_sign :: string where
  "euro_sign = [CHR 0xE2, CHR 0x82, CHR 0xAC]"

definition briefcase :: string where
  "briefcase = [CHR 0xF0, CHR 0x9F, CHR 0x92, CHR 0xBC]"

definition money_bag :: string where
  "money_bag = [CHR 0xF0, CHR 0x9F, CHR 0x92, CHR 0xB0]"

definition bar_chart :: string where
  "bar_chart = [CHR 0xF0, CHR 0x9F, CHR 0x93, CHR 0x8A]"

definition inbox_tray :: string where
  "inbox_tray = [CHR 0xF0, CHR 0x9F, CHR 0x93, CHR 0xA5]"

definition cross_mark :: string where
  "cross_mark = [CHR 0xE2, CHR 0x9D, CHR 0x8C]"

definition check_mark :: string where
  "check_mark = [CHR 0xE2, CHR 0x9C, CHR 0x85]"

subsection \<open>Validation (app.py, lines 38 to 47)\<close>

definition validate_age :: "int \<Rightarrow> bool \<times> string" where
  "validate_age age = (18 \<le> age \<and> age \<le> 60, ''Age must be between 18 and 100'')"

definition validate_experience :: "int \<Rightarrow> int \<Rightarrow> bool \<times> string" where
  "validate_experience experience age =
     (if experience < 0 then (False, ''Experience cannot be negative'')
      else if experience > age - 16 then (False, ''Experience cannot exceed (Age - 16) years'')
      else (True, ''''))"

subsection \<open>Data frames\<close>

text \<open>
  The five feature columns shared by the trainer and the app. \<^verbatim>\<open>input_df\<close> of the app
  is such a frame with one element in each column; the trainer's \<^verbatim>\<open>data\<close> has 300 and
  gains a \<^verbatim>\<open>Salary\<close> column.
\<close>

record frame =
  Age :: "int list"
  Gender :: "string list"
  Education_Level :: "string list"
  Job_Title :: "string list"
  Years_of_Experience :: "int list"

record dataset = frame +
  Salary :: "real option list"

subsection \<open>The form, the clock and the displayed events\<close>

datatype currency = INR | USD | EUR

text \<open>The three options of the currency select box, as the strings the widget returns.\<close>

definition currency_label :: "currency \<Rightarrow> string" where
  "currency_label c =
     (case c of INR \<Rightarrow> rupee_sign @ '' (INR)''
              | USD \<Rightarrow> ''$ (USD)''
              | EUR \<Rightarrow> euro_sign @ '' (EUR)'')"

text \<open>
  What the widgets return in one run of the script. The widgets bound the values:
  the age spinner to 18..100, the experience slider to 0..50, the select boxes to their
  options; \<open>widget_ranges\<close> states the two numeric bounds.
\<close>

record form =
  in_show_charts :: bool
  in_currency :: currency
  in_age :: int
  in_gender :: string
  in_education_level :: string
  in_job_title :: string
  in_experience :: int
  in_button :: bool

definition widget_ranges :: "form \<Rightarrow> bool" where
  "widget_ranges f =
     (18 \<le> in_age f \<and> in_age f \<le> 100 \<and> 0 \<le> in_experience f \<and> in_experience f \<le> 50)"

record datetime =
  year :: nat
  month :: nat
  day :: nat
  hour :: nat
  minute :: nat
  second :: nat

definition digit :: "nat \<Rightarrow> char" where
  "digit d = ''0123456789'' ! (d mod 10)"

definition pad2 :: "nat \<Rightarrow> string" where
  "pad2 n = [digit (n div 10), digit n]"

definition pad4 :: "nat \<Rightarrow> string" where
  "pad4 n = [digit (n div 1000), digit (n div 100), digit (n div 10), digit n]"

text \<open>\<^verbatim>\<open>strftime("%Y-%m-%d %H:%M:%S")\<close> and \<^verbatim>\<open>strftime("%Y%m%d_%H%M%S")\<close>.\<close>

definition strftime_report :: "datetime \<Rightarrow> string" where
  "strftime_report t =
     pad4 (year t) @ ''-'' @ pad2 (month t) @ ''-'' @ pad2 (day t) @ '' '' @
     pad2 (hour t) @ '':'' @ pad2 (minute t) @ '':'' @ pad2 (second t)"

definition strftime_file :: "datetime \<Rightarrow> string" where
  "strftime_file t =
     pad4 (year t) @ pad2 (month t) @ pad2 (day t) @ ''_'' @
     pad2 (hour t) @ pad2 (minute t) @ pad2 (second t)"

datatype piece = Lit string | Fmt real string

type_synonym fstring = "piece list"

record scatter_frame =
  Job_Role :: "string list"
  Actual_Salary_INR :: "real list"
  Scatter_Years_of_Experience :: "int list"

record role_frame =
  Role :: "string list"
  Count :: "int list"

text \<open>
  \<^verbatim>\<open>px.scatter(scatter_data, x, y, color, title, size, hover_data)\<close> and
  \<^verbatim>\<open>px.pie(role_distribution, names, values, title)\<close>; the marker outline and the
  colour sequence are styling and are not recorded.
\<close>

datatype figure =
    Px_scatter scatter_frame string string string string "int list" "string list"
  | Px_pie role_frame string string string

datatype cell = Text string | Integer int | Number real

text \<open>A CSV text as its header line and its data rows, each a list of fields.\<close>

record csv =
  csv_header :: "string list"
  csv_rows :: "cell list list"

datatype ui =
    St_markdown fstring
  | St_subheader string
  | St_error string
  | St_spinner string
  | Time_sleep nat
  | Model_predict frame
  | St_metric string fstring
  | St_plotly_chart figure
  | St_download_button string csv string string
  | St_success string

subsection \<open>String splitting\<close>

definition isspace :: "char \<Rightarrow> bool" where
  "isspace c = (c \<in> set [CHR '' '', CHR 0x09, CHR 0x0A, CHR 0x0B, CHR 0x0C, CHR 0x0D])"

text \<open>\<^verbatim>\<open>str.split()\<close>: the maximal runs of characters that are not white space.\<close>

fun split_from :: "string \<Rightarrow> string \<Rightarrow> string list" where
  "split_from w [] = (if w = [] then [] else [w])"
| "split_from w (c # cs) =
     (if isspace c then (if w = [] then [] else [w]) @ split_from [] cs
      else split_from (w @ [c]) cs)"

definition split :: "string \<Rightarrow> string list" where
  "split s = split_from [] s"

text \<open>\<^verbatim>\<open>xs[0]\<close>, which raises on an empty sequence.\<close>

fun first :: "'a list \<Rightarrow> exn + 'a" where
  "first [] = Inl IndexError"
| "first (x # xs) = Inr x"

text \<open>\<^verbatim>\<open>d[k]\<close> on a dictionary, which raises on a missing key.\<close>

definition getitem :: "('k \<times> 'v) list \<Rightarrow> 'k \<Rightarrow> exn + 'v" where
  "getitem d k = (case map_of d k of None \<Rightarrow> Inl KeyError | Some v \<Rightarrow> Inr v)"

subsection \<open>The prediction branch of main (app.py, lines 89 to 184)\<close>

definition input_df :: "form \<Rightarrow> frame" where
  "input_df f =
     \<lparr>Age = [in_age f], Gender = [in_gender f], Education_Level = [in_education_level f],
      Job_Title = [in_job_title f], Years_of_Experience = [in_experience f]\<rparr>"

definition currency_multipliers :: "(string \<times> real) list" where
  "currency_multipliers =
     [(currency_label INR, 1), (currency_label USD, 0.012), (currency_label EUR, 0.011)]"

definition prediction_card :: "string \<Rightarrow> real \<Rightarrow> fstring" where
  \<open>prediction_card symbol converted_salary =
     [Lit (''<div class="prediction-card"><p>'' @ money_bag @ '' Predicted Annual Salary</p>''),
      Lit ''<div class="prediction-amount">'', Lit symbol, Lit '' '',
      Fmt converted_salary '',.2f'', Lit ''</div></div>'']\<close>

definition metrics :: "string \<Rightarrow> real \<Rightarrow> ui list" where
  "metrics symbol converted_salary =
     [St_metric ''Monthly Salary'' [Lit symbol, Lit '' '', Fmt (converted_salary / 12) '',.2f''],
      St_metric ''Hourly Rate'' [Lit symbol, Lit '' '', Fmt (converted_salary / (40 * 52)) ''.2f''],
      St_metric ''Daily Earning'' [Lit symbol, Lit '' '', Fmt (converted_salary / 365) ''.2f'']]"

text \<open>
  The reference points of the scatter chart, then the row that
  \<^verbatim>\<open>scatter_data.loc[len(scatter_data)] = {...}\<close> appends.
\<close>

definition scatter_fixture :: scatter_frame where
  "scatter_fixture =
     \<lparr>Job_Role = [''Developer'', ''Data Scientist'', ''Manager'', ''Analyst'', ''Engineer''],
      Actual_Salary_INR = [800000, 1200000, 1500000, 700000, 900000],
      Scatter_Years_of_Experience = [3, 5, 10, 2, 4]\<rparr>"

definition append_row :: "scatter_frame \<Rightarrow> string \<Rightarrow> real \<Rightarrow> int \<Rightarrow> scatter_frame" where
  "append_row d role salary years =
     \<lparr>Job_Role = Job_Role d @ [role],
      Actual_Salary_INR = Actual_Salary_INR d @ [salary],
      Scatter_Years_of_Experience = Scatter_Years_of_Experience d @ [years]\<rparr>"

definition scatter_data :: "real \<Rightarrow> int \<Rightarrow> scatter_frame" where
  "scatter_data prediction experience = append_row scatter_fixture ''You'' prediction experience"

definition role_distribution :: role_frame where
  "role_distribution =
     \<lparr>Role = [''Developer'', ''Data Scientist'', ''Manager'', ''Analyst'', ''Engineer''],
      Count = [50, 20, 15, 10, 5]\<rparr>"

definition charts :: "real \<Rightarrow> int \<Rightarrow> ui list" where
  "charts prediction experience =
     (let d = scatter_data prediction experience in
      [St_markdown [Lit (''### '' @ bar_chart @ '' Actual vs. Predicted Salary (Scatter Plot)'')],
       St_plotly_chart
         (Px_scatter d ''Years of Experience'' ''Actual Salary (INR)'' ''Job Role''
            ''Actual vs Predicted Salary (INR)'' (replicate (length (Job_Role d)) 10)
            [''Job Role'']),
       St_markdown [Lit (''### '' @ bar_chart @ '' Job Role Distribution (Pie Chart)'')],
       St_plotly_chart (Px_pie role_distribution ''Role'' ''Count'' ''Job Role Distribution'')])"

definition result_data :: "form \<Rightarrow> datetime \<Rightarrow> real \<Rightarrow> real \<Rightarrow> (string \<times> cell) list" where
  "result_data f now prediction converted_salary =
     [(''Prediction_Date'', Text (strftime_report now)),
      (''Age'', Integer (in_age f)),
      (''Gender'', Text (in_gender f)),
      (''Education'', Text (in_education_level f)),
      (''Job_Title'', Text (in_job_title f)),
      (''Experience'', Integer (in_experience f)),
      (''Predicted_Salary'', Number prediction),
      (''Currency'', Text (currency_label (in_currency f))),
      (''Converted_Salary'', Number converted_salary)]"

text \<open>\<^verbatim>\<open>pd.DataFrame([d]).to_csv(index=False)\<close>: the keys of each dictionary in insertion
  order as the header (all of them the first one's here), one row for each dictionary.\<close>

definition to_csv :: "(string \<times> cell) list list \<Rightarrow> csv" where
  "to_csv ds =
     \<lparr>csv_header = (case ds of [] \<Rightarrow> [] | d # _ \<Rightarrow> map fst d),
      csv_rows = map (map snd) ds\<rparr>"

definition report :: "form \<Rightarrow> datetime \<Rightarrow> datetime \<Rightarrow> real \<Rightarrow> real \<Rightarrow> ui list" where
  "report f now1 now2 prediction converted_salary =
     [St_download_button (inbox_tray @ '' Download Prediction Report'')
        (to_csv [result_data f now1 prediction converted_salary])
        (''salary_prediction_'' @ strftime_file now2 @ ''.csv'')
        ''text/csv'',
      St_success (check_mark @ '' Prediction completed!'')]"

text \<open>
  Lines 89 to 100: the spinner, the sleep and the call of the model on the one-row frame.
\<close>

definition started :: "form \<Rightarrow> ui list" where
  "started f =
     [St_spinner ''Analyzing your profile...'', Time_sleep 1, Model_predict (input_df f)]"

text \<open>Lines 110 to 184: the card, the three metrics, the charts when asked for, the report.\<close>

definition show_result ::
  "form \<Rightarrow> datetime \<Rightarrow> datetime \<Rightarrow> real \<Rightarrow> string \<Rightarrow> real \<Rightarrow> ui list" where
  "show_result f now1 now2 prediction symbol converted_salary =
     [St_markdown (prediction_card symbol converted_salary)]
     @ metrics symbol converted_salary
     @ (if in_show_charts f then charts prediction (in_experience f) else [])
     @ report f now1 now2 prediction converted_salary"

text \<open>
  Lines 89 to 184: what happens once the button is pressed and both flags are true.
  \<open>model_predict\<close> is \<^verbatim>\<open>model.predict\<close> of the loaded pipeline, a parameter of the app.
  The events displayed before an exception are kept beside the exception.
\<close>

definition predict_and_show ::
  "(frame \<Rightarrow> exn + real list) \<Rightarrow> form \<Rightarrow> datetime \<Rightarrow> datetime \<Rightarrow> ui list \<times> exn option" where
  "predict_and_show model_predict f now1 now2 =
     (case model_predict (input_df f) of
        Inl e \<Rightarrow> (started f, Some e)
      | Inr ys \<Rightarrow>
          (case first ys of
             Inl e \<Rightarrow> (started f, Some e)
           | Inr prediction \<Rightarrow>
               (case first (split (currency_label (in_currency f))) of
                  Inl e \<Rightarrow> (started f, Some e)
                | Inr symbol \<Rightarrow>
                    (case getitem currency_multipliers (currency_label (in_currency f)) of
                       Inl e \<Rightarrow> (started f, Some e)
                     | Inr m \<Rightarrow>
                         (started f @ show_result f now1 now2 prediction symbol (prediction * m),
                          None)))))"

subsection \<open>main (app.py, lines 51 to 184)\<close>

text \<open>
  The header, the settings heading, the inline validation messages and the rule are
  displayed in every run; the widgets themselves are represented by the values of
  \<open>form\<close>. \<open>now1\<close> and \<open>now2\<close> are the two readings of \<^verbatim>\<open>datetime.now()\<close>.
\<close>

definition validation_messages :: "form \<Rightarrow> ui list" where
  "validation_messages f =
     (let (age_valid, age_msg) = validate_age (in_age f);
          (exp_valid, exp_msg) = validate_experience (in_experience f) (in_age f)
      in (if \<not> age_valid then [St_error age_msg] else [])
         @ (if \<not> exp_valid then [St_error exp_msg] else []))"

definition page_top :: "form \<Rightarrow> ui list" where
  \<open>page_top f =
     [St_markdown [Lit (''<div class="main-header"><h1>'' @ briefcase
                        @ ''Employee Salary Predictor</h1></div>'')],
      St_subheader ''Prediction Settings'']
     @ validation_messages f
     @ [St_markdown [Lit ''---'']]\<close>

definition please_fix :: string where
  "please_fix = cross_mark @ '' Please fix the validation errors above before predicting.''"

definition main ::
  "(frame \<Rightarrow> exn + real list) \<Rightarrow> form \<Rightarrow> datetime \<Rightarrow> datetime \<Rightarrow> ui list \<times> exn option" where
  "main model_predict f now1 now2 =
     (let (age_valid, age_msg) = validate_age (in_age f);
          (exp_valid, exp_msg) = validate_experience (in_experience f) (in_age f)
      in if in_button f then
           if \<not> (age_valid \<and> exp_valid) then (page_top f @ [St_error please_fix], None)
           else
             (case predict_and_show model_predict f now1 now2 of
                (shown, raised) \<Rightarrow> (page_top f @ shown, raised))
         else (page_top f, None))"

section \<open>The trainer (train_model.py)\<close>

subsection \<open>The random draws\<close>

text \<open>
  Modelled from the spec: numpy's generator is a library, not code of this repository.
  The script calls it six times (lines 10 to 14 and 36); the six arrays it returns are
  the input of the model. Each predicate below says which arrays a call can return:
  \<^verbatim>\<open>randint(low, high, size)\<close> gives \<open>size\<close> integers of the half-open range,
  \<^verbatim>\<open>choice(a, size)\<close> gives \<open>size\<close> elements of \<open>a\<close>, and
  \<^verbatim>\<open>normal(loc, scale, size)\<close> gives \<open>size\<close> floats. The probability with which
  an array is returned is not represented.
\<close>

definition randint :: "int \<Rightarrow> int \<Rightarrow> nat \<Rightarrow> int list \<Rightarrow> bool" where
  "randint low high n xs = (length xs = n \<and> list_all (\<lambda>x. low \<le> x \<and> x < high) xs)"

definition choice :: "string list \<Rightarrow> nat \<Rightarrow> string list \<Rightarrow> bool" where
  "choice a n xs = (length xs = n \<and> list_all (\<lambda>x. x \<in> set a) xs)"

definition normal :: "real \<Rightarrow> real \<Rightarrow> nat \<Rightarrow> real list \<Rightarrow> bool" where
  "normal loc scale n xs = (length xs = n)"

record draws =
  drawn_age :: "int list"
  drawn_gender :: "string list"
  drawn_education_level :: "string list"
  drawn_job_title :: "string list"
  drawn_years_of_experience :: "int list"
  drawn_noise :: "real list"

definition possible_draws :: "draws \<Rightarrow> bool" where
  "possible_draws d =
     (randint 22 60 300 (drawn_age d) \<and>
      choice [''Male'', ''Female''] 300 (drawn_gender d) \<and>
      choice [''High School'', ''Bachelor'', ''Master'', ''PhD''] 300 (drawn_education_level d) \<and>
      choice [''Developer'', ''Data Scientist'', ''Manager'', ''Analyst'', ''Engineer''] 300
        (drawn_job_title d) \<and>
      randint 0 35 300 (drawn_years_of_experience d) \<and>
      normal 0 50000 300 (drawn_noise d))"

subsection \<open>The data set and its Salary column (lines 9 to 37)\<close>

text \<open>\<^verbatim>\<open>pd.DataFrame\<close> of a dictionary of arrays raises unless all have one length.\<close>

definition DataFrame ::
  "int list \<Rightarrow> string list \<Rightarrow> string list \<Rightarrow> string list \<Rightarrow> int list \<Rightarrow> exn + frame" where
  "DataFrame a g e j y =
     (if length g = length a \<and> length e = length a \<and> length j = length a \<and> length y = length a
      then Inr \<lparr>Age = a, Gender = g, Education_Level = e, Job_Title = j,
                Years_of_Experience = y\<rparr>
      else Inl ValueError)"

definition base_salary :: int where
  "base_salary = 250000"

definition education_offsets :: "(string \<times> int) list" where
  "education_offsets =
     [(''High School'', 0), (''Bachelor'', 50000), (''Master'', 100000), (''PhD'', 200000)]"

definition job_offsets :: "(string \<times> int) list" where
  "job_offsets =
     [(''Developer'', 200000), (''Data Scientist'', 400000), (''Manager'', 500000),
      (''Analyst'', 150000), (''Engineer'', 250000)]"

text \<open>
  The column arithmetic of pandas on columns of one frame (so of one length): a scalar
  is broadcast, two columns are combined element by element, \<^verbatim>\<open>Series.map\<close> of a
  dictionary leaves a missing value where the key is absent, and a missing value stays
  missing in a sum.
\<close>

definition scalar_add :: "int \<Rightarrow> int list \<Rightarrow> int list" where
  "scalar_add a xs = map (\<lambda>x. a + x) xs"

definition mul_scalar :: "int list \<Rightarrow> int \<Rightarrow> int list" where
  "mul_scalar xs a = map (\<lambda>x. x * a) xs"

definition add_columns :: "int list \<Rightarrow> int list \<Rightarrow> int list" where
  "add_columns xs ys = map2 (\<lambda>x y. x + y) xs ys"

definition series_map :: "(string \<times> int) list \<Rightarrow> string list \<Rightarrow> int option list" where
  "series_map d xs = map (map_of d) xs"

definition add_mapped :: "int option list \<Rightarrow> int option list \<Rightarrow> int option list" where
  "add_mapped xs ys =
     map2 (\<lambda>x y. case (x, y) of (Some a, Some b) \<Rightarrow> Some (a + b) | _ \<Rightarrow> None) xs ys"

text \<open>Adding a float array to a column: the lengths must agree.\<close>

definition add_array :: "int option list \<Rightarrow> real list \<Rightarrow> exn + real option list" where
  "add_array xs es =
     (if length es = length xs
      then Inr (map2 (\<lambda>x e. map_option (\<lambda>a. real_of_int a + e) x) xs es)
      else Inl ValueError)"

definition salary_column :: "frame \<Rightarrow> real list \<Rightarrow> exn + real option list" where
  "salary_column X noise =
     add_array
       (add_mapped
          (add_mapped
             (map Some
                (add_columns
                   (scalar_add base_salary (mul_scalar (Age X) 3000))
                   (mul_scalar (Years_of_Experience X) 15000)))
             (series_map education_offsets (Education_Level X)))
          (series_map job_offsets (Job_Title X)))
       noise"

definition data :: "draws \<Rightarrow> exn + dataset" where
  "data d =
     (case DataFrame (drawn_age d) (drawn_gender d) (drawn_education_level d)
             (drawn_job_title d) (drawn_years_of_experience d) of
        Inl e \<Rightarrow> Inl e
      | Inr X \<Rightarrow>
          (case salary_column X (drawn_noise d) of
             Inl e \<Rightarrow> Inl e
           | Inr s \<Rightarrow> Inr (frame.extend X (dataset.fields s))))"

subsection \<open>The fitted pipeline (lines 40 to 62)\<close>

text \<open>
  Modelled from the spec: \<^verbatim>\<open>StandardScaler\<close>, \<^verbatim>\<open>OneHotEncoder\<close>,
  \<^verbatim>\<open>ColumnTransformer\<close>, \<^verbatim>\<open>LinearRegression\<close> and \<^verbatim>\<open>Pipeline\<close> are
  scikit-learn's, not code of this repository. The spec describes the fitted pipeline as a
  column transformer that standardises the two numeric columns with the training
  statistics and one-hot encodes the three categorical columns, configured to ignore
  unseen categories (an all-zero encoding rather than a failure), followed by a linear
  regressor; \<^verbatim>\<open>predict\<close> applies the frozen transform and returns one scalar per input
  row. The record holds what \<^verbatim>\<open>fit\<close> estimates; how it estimates the numbers is not
  modelled. \<open>handle_unknown\<close> is the option of line 44, whose other value makes the
  encoder raise.
\<close>

datatype handle_unknown = Raise | Ignore

record pipeline =
  scaler_mean :: "real list"
  scaler_scale :: "real list"
  encoder_categories :: "string list list"
  encoder_handle_unknown :: handle_unknown
  regressor_coef :: "real list"
  regressor_intercept :: real

definition standardize :: "real list \<Rightarrow> real list \<Rightarrow> real list \<Rightarrow> exn + real list" where
  "standardize means scales xs =
     (if length means = length xs \<and> length scales = length xs
      then Inr (map2 (\<lambda>x (m, s). (x - m) / s) xs (zip means scales))
      else Inl ValueError)"

definition one_hot :: "handle_unknown \<Rightarrow> string list \<Rightarrow> string \<Rightarrow> exn + real list" where
  "one_hot hu categories v =
     (if v \<in> set categories then Inr (map (\<lambda>c. if c = v then 1 else 0) categories)
      else (case hu of Raise \<Rightarrow> Inl ValueError
                     | Ignore \<Rightarrow> Inr (replicate (length categories) 0)))"

fun encode :: "handle_unknown \<Rightarrow> string list list \<Rightarrow> string list \<Rightarrow> exn + real list" where
  "encode hu [] [] = Inr []"
| "encode hu (c # cs) (v # vs) =
     (case one_hot hu c v of
        Inl e \<Rightarrow> Inl e
      | Inr x \<Rightarrow> (case encode hu cs vs of Inl e \<Rightarrow> Inl e | Inr xs \<Rightarrow> Inr (x @ xs)))"
| "encode hu _ _ = Inl ValueError"

definition linear_regression :: "real list \<Rightarrow> real \<Rightarrow> real list \<Rightarrow> exn + real" where
  "linear_regression coef intercept xs =
     (if length coef = length xs then Inr (sum_list (map2 (\<lambda>w x. w * x) coef xs) + intercept)
      else Inl ValueError)"

text \<open>One row through the pipeline: the numeric block, then the categorical block.\<close>

definition predict_row ::
  "pipeline \<Rightarrow> int \<Rightarrow> string \<Rightarrow> string \<Rightarrow> string \<Rightarrow> int \<Rightarrow> exn + real" where
  "predict_row p age gender education_level job_title years =
     (case standardize (scaler_mean p) (scaler_scale p) [real_of_int age, real_of_int years] of
        Inl e \<Rightarrow> Inl e
      | Inr num \<Rightarrow>
          (case encode (encoder_handle_unknown p) (encoder_categories p)
                  [gender, education_level, job_title] of
             Inl e \<Rightarrow> Inl e
           | Inr cat \<Rightarrow> linear_regression (regressor_coef p) (regressor_intercept p) (num @ cat)))"

fun collect :: "(exn + 'a) list \<Rightarrow> exn + 'a list" where
  "collect [] = Inr []"
| "collect (r # rs) =
     (case r of
        Inl e \<Rightarrow> Inl e
      | Inr y \<Rightarrow> (case collect rs of Inl e \<Rightarrow> Inl e | Inr ys \<Rightarrow> Inr (y # ys)))"

text \<open>The columns of a data frame have one length; a frame that is none is refused.\<close>

definition columns_equal :: "frame \<Rightarrow> bool" where
  "columns_equal X =
     (length (Gender X) = length (Age X) \<and> length (Education_Level X) = length (Age X) \<and>
      length (Job_Title X) = length (Age X) \<and> length (Years_of_Experience X) = length (Age X))"

definition predict :: "pipeline \<Rightarrow> frame \<Rightarrow> exn + real list" where
  "predict p X =
     (if columns_equal X
      then collect
             (map (\<lambda>i. predict_row p (Age X ! i) (Gender X ! i) (Education_Level X ! i)
                         (Job_Title X ! i) (Years_of_Experience X ! i))
                [0 ..< length (Age X)])
      else Inl ValueError)"

text \<open>
  What \<^verbatim>\<open>fit\<close> of the pipeline built in lines 40 to 56 guarantees about its shape: two
  numeric columns with nonzero scales, three vocabularies, one coefficient per
  transformed column, and the option \<^verbatim>\<open>handle_unknown='ignore'\<close>.
\<close>

definition trained :: "pipeline \<Rightarrow> bool" where
  "trained p =
     (length (scaler_mean p) = 2 \<and> length (scaler_scale p) = 2 \<and>
      list_all (\<lambda>s. s \<noteq> 0) (scaler_scale p) \<and>
      length (encoder_categories p) = 3 \<and>
      encoder_handle_unknown p = Ignore \<and>
      length (regressor_coef p) = 2 + sum_list (map length (encoder_categories p)))"

section \<open>Notions used to state the properties\<close>

text \<open>
  The values that the two lookups of lines 107 and 108 return for each option of the
  currency box (lemmas \<open>symbol_of_label\<close> and \<open>multiplier_of_label\<close> below), and the
  offsets that the two dictionaries of lines 23 to 35 hold for each word of the
  vocabularies (lemmas \<open>education_lookup\<close> and \<open>job_lookup\<close>).
\<close>

definition currency_symbol :: "currency \<Rightarrow> string" where
  "currency_symbol c = (case c of INR \<Rightarrow> rupee_sign | USD \<Rightarrow> ''$'' | EUR \<Rightarrow> euro_sign)"

definition conversion_rate :: "currency \<Rightarrow> real" where
  "conversion_rate c = (case c of INR \<Rightarrow> 1 | USD \<Rightarrow> 0.012 | EUR \<Rightarrow> 0.011)"

definition education_offset :: "string \<Rightarrow> int" where
  "education_offset e =
     (if e = ''High School'' then 0 else if e = ''Bachelor'' then 50000
      else if e = ''Master'' then 100000 else 200000)"

definition job_offset :: "string \<Rightarrow> int" where
  "job_offset j =
     (if j = ''Developer'' then 200000 else if j = ''Data Scientist'' then 400000
      else if j = ''Manager'' then 500000 else if j = ''Analyst'' then 150000 else 250000)"

text \<open>Both flags of line 86.\<close>

definition both_valid :: "form \<Rightarrow> bool" where
  "both_valid f =
     (fst (validate_age (in_age f)) \<and> fst (validate_experience (in_experience f) (in_age f)))"

text \<open>What a run displays after a prediction \<open>p\<close>, with the two lookups resolved.\<close>

definition shown :: "form \<Rightarrow> datetime \<Rightarrow> datetime \<Rightarrow> real \<Rightarrow> ui list" where
  "shown f now1 now2 p =
     show_result f now1 now2 p (currency_symbol (in_currency f))
       (p * conversion_rate (in_currency f))"

text \<open>
  The events that present a prediction: a markdown block that prints a number (the
  card), a metric, a chart, the download button and the closing message.
\<close>

definition prints_number :: "piece \<Rightarrow> bool" where
  "prints_number x = (case x of Fmt v spec \<Rightarrow> True | Lit t \<Rightarrow> False)"

definition result_event :: "ui \<Rightarrow> bool" where
  "result_event e =
     (case e of St_markdown t \<Rightarrow> list_ex prints_number t
              | St_metric l v \<Rightarrow> True
              | St_plotly_chart g \<Rightarrow> True
              | St_download_button l c n m \<Rightarrow> True
              | St_success t \<Rightarrow> True
              | _ \<Rightarrow> False)"

subsection \<open>Examples\<close>

text \<open>
  The form of the spec's example (age 30, male, bachelor, developer, five years), with
  the charts on and US dollars chosen; a form whose age the check rejects; a clock
  reading; a model that answers every row with one fixed number; random draws in which
  all 300 rows are alike except the first; and a fitted pipeline.
\<close>

definition example_form :: form where
  "example_form =
     \<lparr>in_show_charts = True, in_currency = USD, in_age = 30, in_gender = ''Male'',
      in_education_level = ''Bachelor'', in_job_title = ''Developer'', in_experience = 5,
      in_button = True\<rparr>"

definition rejected_form :: form where
  "rejected_form = example_form\<lparr>in_age := 75\<rparr>"

definition example_clock :: datetime where
  "example_clock = \<lparr>year = 2025, month = 7, day = 14, hour = 9, minute = 30, second = 5\<rparr>"

definition constant_model :: "real \<Rightarrow> frame \<Rightarrow> exn + real list" where
  "constant_model y X = Inr (map (\<lambda>a. y) (Age X))"

definition example_draws :: draws where
  "example_draws =
     \<lparr>drawn_age = 59 # replicate 299 22,
      drawn_gender = ''Female'' # replicate 299 ''Male'',
      drawn_education_level = ''PhD'' # replicate 299 ''High School'',
      drawn_job_title = ''Manager'' # replicate 299 ''Analyst'',
      drawn_years_of_experience = 34 # replicate 299 0,
      drawn_noise = - 12500 # replicate 299 0\<rparr>"

definition example_pipeline :: pipeline where
  "example_pipeline =
     \<lparr>scaler_mean = [40, 15],
      scaler_scale = [10, 10],
      encoder_categories =
        [[''Female'', ''Male''],
         [''Bachelor'', ''High School'', ''Master'', ''PhD''],
         [''Analyst'', ''Data Scientist'', ''Developer'', ''Engineer'', ''Manager'']],
      encoder_handle_unknown = Ignore,
      regressor_coef =
        [30000, 150000, - 1000, 1000, - 40000, - 90000, 10000, 110000,
         - 150000, 100000, - 100000, - 50000, 200000],
      regressor_intercept = 1000000\<rparr>"

definition unseen_job_frame :: frame where
  "unseen_job_frame =
     \<lparr>Age = [30], Gender = [''Male''], Education_Level = [''Bachelor''],
      Job_Title = [''Astronaut''], Years_of_Experience = [5]\<rparr>"

section \<open>Validation\<close>

lemma validate_age_flag: "fst (validate_age age) \<longleftrightarrow> 18 \<le> age \<and> age \<le> 60"
  by (simp add: validate_age_def)

lemma validate_experience_flag:
  "fst (validate_experience experience age) \<longleftrightarrow> 0 \<le> experience \<and> experience \<le> age - 16"
  by (auto simp: validate_experience_def)

text \<open>
  C1. For every age in [18, 60] and every experience in [0, age - 16] both checks return
  a true flag; for every age outside [18, 60] the age check returns a false flag; for
  every experience that is negative or exceeds age - 16 the experience check returns a
  false flag.
\<close>

theorem validation_ranges:
  "(18 \<le> age \<and> age \<le> 60 \<and> 0 \<le> experience \<and> experience \<le> age - 16 \<longrightarrow>
      fst (validate_age age) \<and> fst (validate_experience experience age)) \<and>
   (age < 18 \<or> 60 < age \<longrightarrow> \<not> fst (validate_age age)) \<and>
   (experience < 0 \<or> age - 16 < experience \<longrightarrow> \<not> fst (validate_experience experience age))"
  by (auto simp: validate_age_flag validate_experience_flag)

theorem validation_ranges_witness:
  "fst (validate_age 30) \<and> fst (validate_experience 14 30) \<and>
   \<not> fst (validate_age 17) \<and> \<not> fst (validate_age 61) \<and>
   \<not> fst (validate_experience (- 1) 30) \<and> \<not> fst (validate_experience 15 30)"
  using validation_ranges [of 30 14] validation_ranges [of 17 "- 1"]
    validation_ranges [of 61 46] validation_ranges [of 30 15]
    validation_ranges [of 30 "- 1"]
  by simp

text \<open>
  C2. The age check returns a true flag exactly for 18 <= age <= 60, while the message
  it returns, whatever the age, reads "Age must be between 18 and 100"; so every age
  above 60 and up to 100 is rejected with a message that names 100 as the bound.
\<close>

theorem validate_age_bound_and_message:
  "(fst (validate_age age) \<longleftrightarrow> 18 \<le> age \<and> age \<le> 60) \<and>
   snd (validate_age age) = ''Age must be between 18 and 100'' \<and>
   (60 < age \<and> age \<le> 100 \<longrightarrow>
      validate_age age = (False, ''Age must be between 18 and 100''))"
  by (auto simp: validate_age_def)

theorem validate_age_bound_and_message_witness:
  "fst (validate_age 60) \<and> \<not> fst (validate_age 61) \<and>
   validate_age 75 = (False, ''Age must be between 18 and 100'') \<and>
   validate_age 100 = (False, ''Age must be between 18 and 100'')"
  using validate_age_bound_and_message [of 60] validate_age_bound_and_message [of 61]
    validate_age_bound_and_message [of 75]
    validate_age_bound_and_message [of 100]
  by simp

text \<open>
  The spinner lets ages up to 100 through, so the rejected ages of C2 are ones the form
  can submit: within the widget's range the flag is decided by the bound 60 alone.
\<close>

lemma widget_age_flag:
  "widget_ranges f \<Longrightarrow> fst (validate_age (in_age f)) \<longleftrightarrow> in_age f \<le> 60"
  by (auto simp: widget_ranges_def validate_age_flag)

section \<open>The runs of main\<close>

lemma symbol_of_label: "first (split (currency_label c)) = Inr (currency_symbol c)"
  by (cases c)
     (simp_all add: split_def currency_label_def currency_symbol_def isspace_def
        rupee_sign_def euro_sign_def)

lemma multiplier_of_label:
  "getitem currency_multipliers (currency_label c) = Inr (conversion_rate c)"
  by (cases c)
     (simp_all add: getitem_def currency_multipliers_def currency_label_def conversion_rate_def
        rupee_sign_def euro_sign_def)

lemma predict_and_show_cases:
  "predict_and_show mp f now1 now2 =
     (case mp (input_df f) of
        Inl e \<Rightarrow> (started f, Some e)
      | Inr [] \<Rightarrow> (started f, Some IndexError)
      | Inr (p # rest) \<Rightarrow> (started f @ shown f now1 now2 p, None))"
  by (cases "mp (input_df f)"; cases "projr (mp (input_df f))")
     (simp_all add: predict_and_show_def shown_def symbol_of_label multiplier_of_label)

lemma main_cases:
  "main mp f now1 now2 =
     (if in_button f then
        if both_valid f then
          (case mp (input_df f) of
             Inl e \<Rightarrow> (page_top f @ started f, Some e)
           | Inr [] \<Rightarrow> (page_top f @ started f, Some IndexError)
           | Inr (p # rest) \<Rightarrow> (page_top f @ started f @ shown f now1 now2 p, None))
        else (page_top f @ [St_error please_fix], None)
      else (page_top f, None))"
  by (simp add: main_def both_valid_def split_beta predict_and_show_cases
        split: sum.splits list.splits)

lemma main_predicted:
  assumes "in_button f" and "both_valid f" and "mp (input_df f) = Inr (p # rest)"
  shows "main mp f now1 now2 = (page_top f @ started f @ shown f now1 now2 p, None)"
  using assms by (simp add: main_cases)

lemma page_top_events:
  "e \<in> set (page_top f) \<Longrightarrow>
   (\<exists>t. e = St_markdown [Lit t]) \<or> (\<exists>t. e = St_subheader t) \<or> (\<exists>t. e = St_error t)"
  by (auto simp: page_top_def validation_messages_def split_beta split: if_splits)

lemma result_event_page_top: "e \<in> set (page_top f) \<Longrightarrow> \<not> result_event e"
  using page_top_events [of e f] by (auto simp: result_event_def prints_number_def)

lemma result_event_started: "e \<in> set (started f) \<Longrightarrow> \<not> result_event e"
  by (auto simp: started_def result_event_def)

lemma result_event_needs_prediction:
  assumes "e \<in> set (fst (main mp f now1 now2))" and "result_event e"
  shows "\<exists>p rest. mp (input_df f) = Inr (p # rest) \<and> e \<in> set (shown f now1 now2 p) \<and>
           fst (main mp f now1 now2) = page_top f @ started f @ shown f now1 now2 p"
  using assms
  by (auto simp: main_cases result_event_def please_fix_def
        split: if_splits sum.splits list.splits
        dest: result_event_page_top result_event_started)

lemma shown_card:
  "St_markdown (prediction_card (currency_symbol (in_currency f))
      (p * conversion_rate (in_currency f))) \<in> set (shown f now1 now2 p)"
  by (simp add: shown_def show_result_def)





lemma scatter_in_shown:
  "St_plotly_chart (Px_scatter d x y c t s h) \<in> set (shown f now1 now2 p) \<Longrightarrow>
   in_show_charts f \<and> d = scatter_data p (in_experience f)"
  by (auto simp: shown_def show_result_def metrics_def charts_def report_def Let_def
        split: if_splits)

lemma six_sizes: "replicate 6 (10::int) = [10, 10, 10, 10, 10, 10]"
  by (simp add: numeral_eq_Suc)

lemma example_form_valid: "in_button example_form \<and> both_valid example_form"
  by (simp add: example_form_def both_valid_def validate_age_def validate_experience_def)

lemma rejected_form_invalid: "in_button rejected_form \<and> \<not> both_valid rejected_form"
  by (simp add: rejected_form_def example_form_def both_valid_def validate_age_def)

lemma constant_model_example:
  "constant_model y (input_df example_form) = Inr [y]"
  by (simp add: constant_model_def input_df_def)

section \<open>Conversion and the derived figures\<close>





section \<open>Validation gates the prediction\<close>

lemma predict_event_page_top: "Model_predict X \<notin> set (page_top f)"
  using page_top_events [of "Model_predict X" f] by auto

text \<open>
  C5. The model's predict is called only when the button is pressed and both flags are
  true. With the button pressed and a flag false, the run displays the page top
  (which holds the message of each failed check) and the request to fix the errors, no
  event that presents a prediction, and raises nothing. With both flags true and a
  model that returns its one scalar for the one-row frame, the run calls predict and
  raises nothing.
\<close>

theorem prediction_blocked_unless_valid:
  "(Model_predict X \<in> set (fst (main mp f now1 now2)) \<longrightarrow> in_button f \<and> both_valid f) \<and>
   (in_button f \<and> \<not> both_valid f \<longrightarrow>
      main mp f now1 now2 = (page_top f @ [St_error please_fix], None) \<and>
      (\<forall>e \<in> set (fst (main mp f now1 now2)). \<not> result_event e) \<and>
      (\<not> fst (validate_age (in_age f)) \<longrightarrow>
         St_error (snd (validate_age (in_age f))) \<in> set (fst (main mp f now1 now2))) \<and>
      (\<not> fst (validate_experience (in_experience f) (in_age f)) \<longrightarrow>
         St_error (snd (validate_experience (in_experience f) (in_age f)))
           \<in> set (fst (main mp f now1 now2)))) \<and>
   (in_button f \<and> both_valid f \<and> mp (input_df f) = Inr [y] \<longrightarrow>
      snd (main mp f now1 now2) = None \<and>
      Model_predict (input_df f) \<in> set (fst (main mp f now1 now2)))"
proof (intro conjI impI)
  assume "Model_predict X \<in> set (fst (main mp f now1 now2))"
  then show "in_button f" "both_valid f"
    by (auto simp: main_cases predict_event_page_top split: if_splits)
next
  assume a: "in_button f \<and> \<not> both_valid f"
  then show run: "main mp f now1 now2 = (page_top f @ [St_error please_fix], None)"
    by (simp add: main_cases)
  show "\<forall>e \<in> set (fst (main mp f now1 now2)). \<not> result_event e"
    using result_event_page_top by (auto simp: run result_event_def)
  show "St_error (snd (validate_age (in_age f))) \<in> set (fst (main mp f now1 now2))"
    if "\<not> fst (validate_age (in_age f))"
    using that by (simp add: run page_top_def validation_messages_def split_beta)
  show "St_error (snd (validate_experience (in_experience f) (in_age f)))
      \<in> set (fst (main mp f now1 now2))"
    if "\<not> fst (validate_experience (in_experience f) (in_age f))"
    using that by (simp add: run page_top_def validation_messages_def split_beta)
next
  assume a: "in_button f \<and> both_valid f \<and> mp (input_df f) = Inr [y]"
  then have "main mp f now1 now2 = (page_top f @ started f @ shown f now1 now2 y, None)"
    by (simp add: main_predicted)
  then show "snd (main mp f now1 now2) = None"
    "Model_predict (input_df f) \<in> set (fst (main mp f now1 now2))"
    by (simp_all add: started_def)
qed

theorem prediction_blocked_unless_valid_witness:
  "in_button rejected_form \<and> \<not> both_valid rejected_form \<and>
   main (constant_model 1000000) rejected_form example_clock example_clock
     = (page_top rejected_form @ [St_error please_fix], None) \<and>
   St_error ''Age must be between 18 and 100''
     \<in> set (fst (main (constant_model 1000000) rejected_form example_clock example_clock)) \<and>
   in_button example_form \<and> both_valid example_form \<and>
   constant_model 1000000 (input_df example_form) = Inr [1000000] \<and>
   snd (main (constant_model 1000000) example_form example_clock example_clock) = None \<and>
   Model_predict (input_df example_form)
     \<in> set (fst (main (constant_model 1000000) example_form example_clock example_clock))"
proof -
  let ?mp = "constant_model 1000000"
  have age: "\<not> fst (validate_age (in_age rejected_form))"
    "snd (validate_age (in_age rejected_form)) = ''Age must be between 18 and 100''"
    by (simp_all add: rejected_form_def example_form_def validate_age_def)
  have bad: "in_button rejected_form" "\<not> both_valid rejected_form"
    using rejected_form_invalid by simp_all
  have good: "in_button example_form" "both_valid example_form"
    "?mp (input_df example_form) = Inr [1000000]"
    using example_form_valid constant_model_example by simp_all
  note blocked = prediction_blocked_unless_valid [of "input_df rejected_form" ?mp
      rejected_form example_clock example_clock 0]
  note passed = prediction_blocked_unless_valid [of "input_df example_form" ?mp
      example_form example_clock example_clock 1000000]
  from blocked bad have run:
    "main ?mp rejected_form example_clock example_clock
       = (page_top rejected_form @ [St_error please_fix], None)"
    by blast
  from blocked bad age(1) have "St_error (snd (validate_age (in_age rejected_form)))
      \<in> set (fst (main ?mp rejected_form example_clock example_clock))"
    by blast
  then have msg: "St_error ''Age must be between 18 and 100''
      \<in> set (fst (main ?mp rejected_form example_clock example_clock))"
    by (simp only: age(2))
  from passed good have ok:
    "snd (main ?mp example_form example_clock example_clock) = None"
    "Model_predict (input_df example_form)
       \<in> set (fst (main ?mp example_form example_clock example_clock))"
    by blast+
  from bad run msg good ok show ?thesis
    by blast
qed

section \<open>The exported report\<close>



lemma example_file_time: "strftime_file example_clock = ''20250714_093005''"
  by (simp add: strftime_file_def example_clock_def pad2_def pad4_def digit_def)

lemma example_run:
  "fst (main (constant_model y) example_form now1 now2)
     = page_top example_form @ started example_form @ shown example_form now1 now2 y"
  using example_form_valid by (simp add: main_predicted constant_model_example)



section \<open>The scatter chart\<close>

text \<open>
  C10, as amended. Whenever a run displays the scatter chart, the model has returned a
  prediction p and the chart is the five reference rows followed by the row
  ("You", p, submitted experience), whatever the currency: the salary coordinate is the
  unconverted prediction. The card of that run displays p times the multiplier; when
  USD or EUR is chosen and p is not zero, the charted salary differs from it.
\<close>

theorem you_point_raw_prediction:
  assumes "St_plotly_chart (Px_scatter d x y color title sizes hover)
             \<in> set (fst (main mp f now1 now2))"
  shows "\<exists>p rest.
           mp (input_df f) = Inr (p # rest) \<and>
           d = append_row scatter_fixture ''You'' p (in_experience f) \<and>
           last (Job_Role d) = ''You'' \<and>
           last (Actual_Salary_INR d) = p \<and>
           last (Scatter_Years_of_Experience d) = in_experience f \<and>
           St_markdown (prediction_card (currency_symbol (in_currency f))
               (p * conversion_rate (in_currency f))) \<in> set (fst (main mp f now1 now2)) \<and>
           (in_currency f \<noteq> INR \<and> p \<noteq> 0 \<longrightarrow>
              last (Actual_Salary_INR d) \<noteq> p * conversion_rate (in_currency f))"
proof -
  have "result_event (St_plotly_chart (Px_scatter d x y color title sizes hover))"
    by (simp add: result_event_def)
  with assms obtain p rest where
    p: "mp (input_df f) = Inr (p # rest)"
    and ev: "St_plotly_chart (Px_scatter d x y color title sizes hover)
               \<in> set (shown f now1 now2 p)"
    and run: "fst (main mp f now1 now2) = page_top f @ started f @ shown f now1 now2 p"
    using result_event_needs_prediction by blast
  from ev have d: "d = append_row scatter_fixture ''You'' p (in_experience f)"
    using scatter_in_shown [OF ev] by (simp add: scatter_data_def)
  have point: "last (Job_Role d) = ''You''" "last (Actual_Salary_INR d) = p"
    "last (Scatter_Years_of_Experience d) = in_experience f"
    by (simp_all add: d append_row_def)
  have card: "St_markdown (prediction_card (currency_symbol (in_currency f))
               (p * conversion_rate (in_currency f))) \<in> set (fst (main mp f now1 now2))"
    by (simp add: run shown_card)
  have differs: "in_currency f \<noteq> INR \<and> p \<noteq> 0 \<longrightarrow>
      last (Actual_Salary_INR d) \<noteq> p * conversion_rate (in_currency f)"
    by (cases "in_currency f") (simp_all add: point conversion_rate_def)
  from p d point card differs show ?thesis
    by blast
qed

lemma example_scatter:
  "St_plotly_chart
     (Px_scatter (scatter_data y 5) ''Years of Experience'' ''Actual Salary (INR)''
        ''Job Role'' ''Actual vs Predicted Salary (INR)'' (replicate 6 10) [''Job Role''])
     \<in> set (fst (main (constant_model y) example_form now1 now2))"
proof -
  have "in_show_charts example_form" "in_experience example_form = 5"
    by (simp_all add: example_form_def)
  then show ?thesis
    by (simp add: example_run shown_def show_result_def charts_def Let_def scatter_data_def
          append_row_def scatter_fixture_def six_sizes)
qed

lemma example_card:
  "St_markdown (prediction_card ''$'' (y * 0.012))
     \<in> set (fst (main (constant_model y) example_form now1 now2))"
proof -
  have "in_currency example_form = USD"
    by (simp add: example_form_def)
  then show ?thesis
    using shown_card [of example_form y now1 now2]
    by (simp add: example_run currency_symbol_def conversion_rate_def)
qed

theorem you_point_raw_prediction_witness:
  "St_plotly_chart
     (Px_scatter (scatter_data 1000000 5) ''Years of Experience'' ''Actual Salary (INR)''
        ''Job Role'' ''Actual vs Predicted Salary (INR)'' (replicate 6 10) [''Job Role''])
     \<in> set (fst (main (constant_model 1000000) example_form example_clock example_clock)) \<and>
   in_currency example_form = USD \<and>
   last (Job_Role (scatter_data 1000000 5)) = ''You'' \<and>
   last (Actual_Salary_INR (scatter_data 1000000 5)) = 1000000 \<and>
   last (Scatter_Years_of_Experience (scatter_data 1000000 5)) = 5 \<and>
   St_markdown (prediction_card ''$'' 12000)
     \<in> set (fst (main (constant_model 1000000) example_form example_clock example_clock)) \<and>
   last (Actual_Salary_INR (scatter_data 1000000 5)) \<noteq> 12000"
proof -
  let ?mp = "constant_model 1000000"
  let ?d = "scatter_data 1000000 5"
  have ev: "St_plotly_chart
     (Px_scatter ?d ''Years of Experience'' ''Actual Salary (INR)''
        ''Job Role'' ''Actual vs Predicted Salary (INR)'' (replicate 6 10) [''Job Role''])
     \<in> set (fst (main ?mp example_form example_clock example_clock))"
    by (rule example_scatter)
  have fields: "in_experience example_form = 5" "in_currency example_form = USD"
    by (simp_all add: example_form_def)
  have usd: "currency_symbol USD = ''$''" "conversion_rate USD = 0.012"
    by (simp_all add: currency_symbol_def conversion_rate_def)
  from you_point_raw_prediction [OF ev] obtain p rest where
    p: "?mp (input_df example_form) = Inr (p # rest)"
    and point: "last (Job_Role ?d) = ''You''" "last (Actual_Salary_INR ?d) = p"
      "last (Scatter_Years_of_Experience ?d) = in_experience example_form"
    and card: "St_markdown (prediction_card (currency_symbol (in_currency example_form))
               (p * conversion_rate (in_currency example_form)))
        \<in> set (fst (main ?mp example_form example_clock example_clock))"
    and differs: "in_currency example_form \<noteq> INR \<and> p \<noteq> 0 \<longrightarrow>
      last (Actual_Salary_INR ?d) \<noteq> p * conversion_rate (in_currency example_form)"
    by blast
  from p have "p = 1000000"
    by (simp add: constant_model_example)
  with point card differs ev show ?thesis
    by (simp add: fields usd)
qed

text \<open>
  The claim as stated, without the condition on p, fails: with USD chosen and a model
  that predicts 0, the chart's salary coordinate and the displayed converted salary are
  both 0.
\<close>

theorem you_point_differs_counterexample:
  "in_currency example_form = USD \<and>
   St_plotly_chart
     (Px_scatter (scatter_data 0 5) ''Years of Experience'' ''Actual Salary (INR)''
        ''Job Role'' ''Actual vs Predicted Salary (INR)'' (replicate 6 10) [''Job Role''])
     \<in> set (fst (main (constant_model 0) example_form example_clock example_clock)) \<and>
   St_markdown (prediction_card ''$'' 0)
     \<in> set (fst (main (constant_model 0) example_form example_clock example_clock)) \<and>
   last (Actual_Salary_INR (scatter_data 0 5)) = 0"
proof -
  have "in_currency example_form = USD"
    by (simp add: example_form_def)
  moreover have "last (Actual_Salary_INR (scatter_data 0 5)) = 0"
    by (simp add: scatter_data_def append_row_def)
  ultimately show ?thesis
    using example_scatter [of 0 example_clock example_clock]
      example_card [of 0 example_clock example_clock]
    by simp
qed

section \<open>The synthetic data set\<close>

lemma list_all_nth: "list_all P xs \<Longrightarrow> length xs = n \<Longrightarrow> i < n \<Longrightarrow> P (xs ! i)"
  by (simp add: list_all_length)

lemma education_lookup:
  "e \<in> set [''High School'', ''Bachelor'', ''Master'', ''PhD''] \<Longrightarrow>
   map_of education_offsets e = Some (education_offset e)"
  by (auto simp: education_offsets_def education_offset_def)

lemma job_lookup:
  "j \<in> set [''Developer'', ''Data Scientist'', ''Manager'', ''Analyst'', ''Engineer''] \<Longrightarrow>
   map_of job_offsets j = Some (job_offset j)"
  by (auto simp: job_offsets_def job_offset_def)

lemma salary_column_row:
  assumes "length (Years_of_Experience X) = length (Age X)"
    and "length (Education_Level X) = length (Age X)"
    and "length (Job_Title X) = length (Age X)"
    and "length noise = length (Age X)"
    and "i < length (Age X)"
    and "map_of education_offsets (Education_Level X ! i) = Some e"
    and "map_of job_offsets (Job_Title X ! i) = Some j"
  shows "\<exists>s. salary_column X noise = Inr s \<and> length s = length (Age X) \<and>
           s ! i = Some (real_of_int (base_salary + Age X ! i * 3000
                     + Years_of_Experience X ! i * 15000 + e + j) + noise ! i)"
  using assms
  by (simp add: salary_column_def add_array_def add_mapped_def add_columns_def scalar_add_def
        mul_scalar_def series_map_def)

lemma possible_draws_lengths:
  assumes "possible_draws d"
  shows "length (drawn_age d) = 300" "length (drawn_gender d) = 300"
    "length (drawn_education_level d) = 300" "length (drawn_job_title d) = 300"
    "length (drawn_years_of_experience d) = 300" "length (drawn_noise d) = 300"
  using assms by (simp_all add: possible_draws_def randint_def choice_def normal_def)

text \<open>
  C4. Whatever arrays the generator returns, the script builds the data set, and the
  Salary of each of its 300 rows is 250000 + Age * 3000 + Years of Experience * 15000 +
  the education offset + the job offset of that row, an integer determined by the row's
  own features, plus the element of the noise array at the row's position and nothing
  else. (\<open>education_offset\<close> and \<open>job_offset\<close> are the two tables.)
\<close>

theorem salary_formula:
  assumes "possible_draws d" and "i < 300"
  shows "\<exists>ds. data d = Inr ds \<and>
           Age ds = drawn_age d \<and> Gender ds = drawn_gender d \<and>
           Education_Level ds = drawn_education_level d \<and> Job_Title ds = drawn_job_title d \<and>
           Years_of_Experience ds = drawn_years_of_experience d \<and>
           length (Salary ds) = 300 \<and>
           Salary ds ! i =
             Some (real_of_int
                     (250000 + Age ds ! i * 3000 + Years_of_Experience ds ! i * 15000
                      + education_offset (Education_Level ds ! i)
                      + job_offset (Job_Title ds ! i))
                   + drawn_noise d ! i)"
proof -
  note len = possible_draws_lengths [OF assms(1)]
  from assms(1) have
    all_edu: "list_all (\<lambda>x. x \<in> set [''High School'', ''Bachelor'', ''Master'', ''PhD''])
       (drawn_education_level d)"
    and all_job: "list_all (\<lambda>x. x \<in> set [''Developer'', ''Data Scientist'', ''Manager'',
       ''Analyst'', ''Engineer'']) (drawn_job_title d)"
    unfolding possible_draws_def choice_def by blast+
  have edu: "drawn_education_level d ! i
      \<in> set [''High School'', ''Bachelor'', ''Master'', ''PhD'']"
    by (rule list_all_nth [OF all_edu len(3) assms(2)])
  have job: "drawn_job_title d ! i
      \<in> set [''Developer'', ''Data Scientist'', ''Manager'', ''Analyst'', ''Engineer'']"
    by (rule list_all_nth [OF all_job len(4) assms(2)])
  define X where "X = \<lparr>Age = drawn_age d, Gender = drawn_gender d,
     Education_Level = drawn_education_level d, Job_Title = drawn_job_title d,
     Years_of_Experience = drawn_years_of_experience d\<rparr>"
  have frame: "DataFrame (drawn_age d) (drawn_gender d) (drawn_education_level d)
             (drawn_job_title d) (drawn_years_of_experience d) = Inr X"
    by (simp add: DataFrame_def len X_def)
  obtain s where s: "salary_column X (drawn_noise d) = Inr s" "length s = 300"
    "s ! i = Some (real_of_int (base_salary + Age X ! i * 3000
                     + Years_of_Experience X ! i * 15000
                     + education_offset (Education_Level X ! i)
                     + job_offset (Job_Title X ! i)) + drawn_noise d ! i)"
    using salary_column_row [of X "drawn_noise d" i
        "education_offset (Education_Level X ! i)" "job_offset (Job_Title X ! i)"]
      education_lookup [OF edu] job_lookup [OF job] assms(2)
    by (auto simp: X_def len)
  have "data d = Inr (frame.extend X (dataset.fields s))"
    by (simp add: data_def frame s)
  then show ?thesis
    using s by (simp add: X_def frame.defs dataset.defs base_salary_def)
qed

lemma example_draws_possible: "possible_draws example_draws"
  by (simp add: possible_draws_def example_draws_def randint_def choice_def normal_def
        list_all_iff)

theorem salary_formula_witness:
  "possible_draws example_draws \<and>
   (\<exists>ds. data example_draws = Inr ds \<and> length (Salary ds) = 300 \<and>
      Salary ds ! 0 = Some 1624500 \<and> Salary ds ! 7 = Some 466000)"
proof -
  have first_row: "drawn_age example_draws ! 0 = 59"
    "drawn_years_of_experience example_draws ! 0 = 34"
    "drawn_education_level example_draws ! 0 = ''PhD''"
    "drawn_job_title example_draws ! 0 = ''Manager''"
    "drawn_noise example_draws ! 0 = - 12500"
    by (simp_all add: example_draws_def)
  have later_row: "drawn_age example_draws ! 7 = 22"
    "drawn_years_of_experience example_draws ! 7 = 0"
    "drawn_education_level example_draws ! 7 = ''High School''"
    "drawn_job_title example_draws ! 7 = ''Analyst''"
    "drawn_noise example_draws ! 7 = 0"
    by (simp_all add: example_draws_def)
  from salary_formula [OF example_draws_possible, of 0] obtain ds where
    ds: "data example_draws = Inr ds" "length (Salary ds) = 300"
    and s0: "Salary ds ! 0 = Some 1624500"
    by (auto simp: first_row education_offset_def job_offset_def)
  from salary_formula [OF example_draws_possible, of 7] ds(1) have
    s7: "Salary ds ! 7 = Some 466000"
    by (auto simp: later_row education_offset_def job_offset_def)
  from ds s0 s7 example_draws_possible show ?thesis
    by blast
qed

text \<open>The size of the data set and the ranges of its columns.\<close>

lemma dataset_shape:
  assumes "possible_draws d"
  shows "\<exists>ds. data d = Inr ds \<and>
           length (Age ds) = 300 \<and> length (Gender ds) = 300 \<and>
           length (Education_Level ds) = 300 \<and> length (Job_Title ds) = 300 \<and>
           length (Years_of_Experience ds) = 300 \<and> length (Salary ds) = 300 \<and>
           list_all (\<lambda>a. 22 \<le> a \<and> a < 60) (Age ds) \<and>
           list_all (\<lambda>y. 0 \<le> y \<and> y < 35) (Years_of_Experience ds) \<and>
           list_all (\<lambda>g. g \<in> set [''Male'', ''Female'']) (Gender ds) \<and>
           list_all (\<lambda>e. e \<in> set [''High School'', ''Bachelor'', ''Master'', ''PhD''])
             (Education_Level ds) \<and>
           list_all (\<lambda>j. j \<in> set [''Developer'', ''Data Scientist'', ''Manager'', ''Analyst'',
             ''Engineer'']) (Job_Title ds)"
proof -
  note len = possible_draws_lengths [OF assms]
  define X where "X = \<lparr>Age = drawn_age d, Gender = drawn_gender d,
     Education_Level = drawn_education_level d, Job_Title = drawn_job_title d,
     Years_of_Experience = drawn_years_of_experience d\<rparr>"
  have frame: "DataFrame (drawn_age d) (drawn_gender d) (drawn_education_level d)
             (drawn_job_title d) (drawn_years_of_experience d) = Inr X"
    by (simp add: DataFrame_def len X_def)
  obtain s where s: "salary_column X (drawn_noise d) = Inr s" "length s = 300"
    by (simp add: salary_column_def add_array_def add_mapped_def add_columns_def
          scalar_add_def mul_scalar_def series_map_def X_def len)
  define ds where "ds = frame.extend X (dataset.fields s)"
  have built: "data d = Inr ds"
    by (simp add: data_def frame s ds_def)
  have ds: "Age ds = drawn_age d" "Gender ds = drawn_gender d"
    "Education_Level ds = drawn_education_level d" "Job_Title ds = drawn_job_title d"
    "Years_of_Experience ds = drawn_years_of_experience d" "length (Salary ds) = 300"
    by (simp_all add: s(2) ds_def X_def frame.defs dataset.defs)
  from assms have ranges:
    "list_all (\<lambda>a. 22 \<le> a \<and> a < 60) (drawn_age d)"
    "list_all (\<lambda>y. 0 \<le> y \<and> y < 35) (drawn_years_of_experience d)"
    "list_all (\<lambda>g. g \<in> set [''Male'', ''Female'']) (drawn_gender d)"
    "list_all (\<lambda>e. e \<in> set [''High School'', ''Bachelor'', ''Master'', ''PhD''])
             (drawn_education_level d)"
    "list_all (\<lambda>j. j \<in> set [''Developer'', ''Data Scientist'', ''Manager'', ''Analyst'',
             ''Engineer'']) (drawn_job_title d)"
    unfolding possible_draws_def randint_def choice_def by blast+
  show ?thesis
    using built ds ranges len by (intro exI [of _ ds]) simp
qed

section \<open>The fitted pipeline\<close>

lemma one_hot_ignore:
  "\<exists>x. one_hot Ignore c v = Inr x \<and> length x = length c"
  by (simp add: one_hot_def)

lemma encode_ignore:
  "length cs = length vs \<Longrightarrow>
   \<exists>xs. encode Ignore cs vs = Inr xs \<and> length xs = sum_list (map length cs)"
proof (induction cs vs rule: list_induct2)
  case Nil
  then show ?case by simp
next
  case (Cons c cs v vs)
  obtain x where x: "one_hot Ignore c v = Inr x" "length x = length c"
    using one_hot_ignore by blast
  from Cons.IH obtain xs where xs: "encode Ignore cs vs = Inr xs"
    "length xs = sum_list (map length cs)"
    by blast
  show ?case
    by (simp add: x xs)
qed

lemma predict_row_trained:
  assumes "trained p"
  shows "\<exists>y. predict_row p a g e j x = Inr y"
proof -
  from assms have shape: "length (scaler_mean p) = 2" "length (scaler_scale p) = 2"
    "length (encoder_categories p) = 3" "encoder_handle_unknown p = Ignore"
    "length (regressor_coef p) = 2 + sum_list (map length (encoder_categories p))"
    by (simp_all add: trained_def)
  obtain num where num: "standardize (scaler_mean p) (scaler_scale p)
      [real_of_int a, real_of_int x] = Inr num" "length num = 2"
    by (simp add: standardize_def shape)
  obtain cat where cat: "encode Ignore (encoder_categories p) [g, e, j] = Inr cat"
    "length cat = sum_list (map length (encoder_categories p))"
    using encode_ignore [of "encoder_categories p" "[g, e, j]"] shape by auto
  show ?thesis
    by (simp add: predict_row_def num cat shape linear_regression_def)
qed

lemma collect_all_results:
  "(\<And>r. r \<in> set rs \<Longrightarrow> \<exists>y. r = Inr y) \<Longrightarrow>
   \<exists>ys. collect rs = Inr ys \<and> length ys = length rs"
proof (induction rs)
  case Nil
  then show ?case by simp
next
  case (Cons r rs)
  then obtain y where y: "r = Inr y"
    by auto
  from Cons obtain ys where ys: "collect rs = Inr ys" "length ys = length rs"
    by auto
  show ?case
    by (simp add: y ys)
qed

lemma predict_trained:
  assumes "trained p" and "columns_equal X"
  shows "\<exists>ys. predict p X = Inr ys \<and> length ys = length (Age X)"
proof -
  let ?rs = "map (\<lambda>i. predict_row p (Age X ! i) (Gender X ! i) (Education_Level X ! i)
                         (Job_Title X ! i) (Years_of_Experience X ! i))
                [0 ..< length (Age X)]"
  have "\<exists>y. r = Inr y" if "r \<in> set ?rs" for r
    using that predict_row_trained [OF assms(1)] by auto
  then obtain ys where "collect ?rs = Inr ys" "length ys = length ?rs"
    using collect_all_results [of ?rs] by blast
  then show ?thesis
    using assms(2) by (simp add: predict_def)
qed

text \<open>
  C9. For a pipeline as the trainer fits it and any data frame, whatever its categorical
  values, predict raises nothing and returns one scalar for each row; the encoder, with
  the option of line 44, turns a value outside a vocabulary into the all-zero vector of
  that vocabulary's length.
\<close>

theorem unknown_category_ignored:
  assumes "trained p" and "columns_equal X"
  shows "(\<exists>ys. predict p X = Inr ys \<and> length ys = length (Age X)) \<and>
         (\<forall>c v. v \<notin> set c \<longrightarrow>
            one_hot (encoder_handle_unknown p) c v = Inr (replicate (length c) 0))"
  using predict_trained [OF assms] assms(1)
  by (simp add: trained_def one_hot_def)

lemma example_pipeline_trained: "trained example_pipeline"
  by (simp add: trained_def example_pipeline_def)

lemma unseen_job_frame_columns: "columns_equal unseen_job_frame"
  by (simp add: columns_equal_def unseen_job_frame_def)

lemma unseen_job_prediction: "predict example_pipeline unseen_job_frame = Inr [781000]"
  by (simp add: predict_def columns_equal_def unseen_job_frame_def predict_row_def
        example_pipeline_def standardize_def one_hot_def linear_regression_def)

theorem unknown_category_ignored_witness:
  "trained example_pipeline \<and> columns_equal unseen_job_frame \<and>
   ''Astronaut'' \<notin> set (encoder_categories example_pipeline ! 2) \<and>
   (\<exists>ys. predict example_pipeline unseen_job_frame = Inr ys \<and> length ys = 1) \<and>
   one_hot (encoder_handle_unknown example_pipeline)
     (encoder_categories example_pipeline ! 2) ''Astronaut'' = Inr [0, 0, 0, 0, 0]"
proof -
  have cats: "encoder_categories example_pipeline ! 2
      = [''Analyst'', ''Data Scientist'', ''Developer'', ''Engineer'', ''Manager'']"
    by (simp add: example_pipeline_def)
  have unseen: "''Astronaut'' \<notin> set (encoder_categories example_pipeline ! 2)"
    by (simp add: cats)
  have rows: "length (Age unseen_job_frame) = 1"
    by (simp add: unseen_job_frame_def)
  have zeros: "replicate (length (encoder_categories example_pipeline ! 2)) (0::real)
      = [0, 0, 0, 0, 0]"
    unfolding cats by simp
  note inst = unknown_category_ignored [OF example_pipeline_trained unseen_job_frame_columns]
  from inst obtain ys where
    "predict example_pipeline unseen_job_frame = Inr ys" "length ys = length (Age unseen_job_frame)"
    by blast
  then have total: "\<exists>ys. predict example_pipeline unseen_job_frame = Inr ys \<and> length ys = 1"
    using rows by simp
  from inst unseen have
    "one_hot (encoder_handle_unknown example_pipeline)
       (encoder_categories example_pipeline ! 2) ''Astronaut''
     = Inr (replicate (length (encoder_categories example_pipeline ! 2)) 0)"
    by blast
  then have encoded: "one_hot (encoder_handle_unknown example_pipeline)
       (encoder_categories example_pipeline ! 2) ''Astronaut'' = Inr [0, 0, 0, 0, 0]"
    by (simp only: zeros)
  from example_pipeline_trained unseen_job_frame_columns unseen total encoded
  show ?thesis
    by blast
qed

text \<open>With the encoder's other option the same value makes the encoder raise.\<close>

lemma unknown_category_raises:
  "v \<notin> set c \<Longrightarrow> one_hot Raise c v = Inl ValueError"
  by (simp add: one_hot_def)

text \<open>The spec's example row through the example pipeline.\<close>

lemma example_prediction:
  "predict example_pipeline (input_df example_form) = Inr [681000]"
  by (simp add: predict_def columns_equal_def input_df_def example_form_def predict_row_def
        example_pipeline_def standardize_def one_hot_def linear_regression_def)

text \<open>The app on a pipeline as the trainer fits it raises nothing, whatever the form.\<close>

lemma trained_model_never_raises:
  assumes "trained p"
  shows "snd (main (predict p) f now1 now2) = None"
proof -
  have "columns_equal (input_df f)" "length (Age (input_df f)) = 1"
    by (simp_all add: columns_equal_def input_df_def)
  with predict_trained [OF assms, of "input_df f"] obtain ys where
    "predict p (input_df f) = Inr ys" "length ys = 1"
    by auto
  then obtain y where "predict p (input_df f) = Inr [y]"
    by (cases ys) auto
  then show ?thesis
    by (simp add: main_cases)
qed

end
